theory Spec2Isabelle
  imports Complex_Main "HOL-Library.Word" "HOL-Library.Multiset"
begin

section \<open>Values exchanged with the HTTP client and the document store\<close>

text \<open>
  A JavaScript string is its sequence of UTF-16 code units, so that \<open>substring\<close> and
  \<open>trim\<close> mean what they mean in the source. String literals of the source are written
  \<open>u ''...''\<close>; a code unit outside ASCII is given by its number.
  Field names are only ever compared for equality and stay plain text.
\<close>

type_synonym js_string = "16 word list"

definition u :: "string \<Rightarrow> js_string" where
  "u s = map of_char s"

text \<open>
  The values of a parsed request body and of a stored document. \<open>JDate\<close> (milliseconds)
  and \<open>JOid\<close> are the two store types the handlers produce besides plain JSON.
  An object is an association list; the first binding of a name is the one that counts.
  A property that is absent (JavaScript \<open>undefined\<close>) is \<open>None\<close>.
  Of the prototype chain only what the handlers depend on is modelled: the method
  \<open>substring\<close> of strings, and the string coercion of a template literal (below).
\<close>

datatype json =
    JNull
  | JBool bool
  | JNum rat
  | JStr js_string
  | JDate int
  | JOid nat
  | JArr "json list"
  | JObj "(string \<times> json) list"

type_synonym document = "(string \<times> json) list"

text \<open>\<open>!!v\<close>: the falsy values are undefined, null, false, 0 and the empty string.\<close>

fun truthy :: "json option \<Rightarrow> bool" where
  "truthy None = False"
| "truthy (Some JNull) = False"
| "truthy (Some (JBool b)) = b"
| "truthy (Some (JNum r)) = (r \<noteq> 0)"
| "truthy (Some (JStr s)) = (s \<noteq> [])"
| "truthy (Some _) = True"

text \<open>\<open>v.name\<close> on a value that is neither undefined nor null: only objects carry
  the names the handlers read.\<close>

fun get_prop :: "json \<Rightarrow> string \<Rightarrow> json option" where
  "get_prop (JObj kvs) name = map_of kvs name"
| "get_prop _ name = None"

text \<open>\<open>v?.name\<close>: undefined and null short-circuit to undefined.\<close>

fun opt_prop :: "json option \<Rightarrow> string \<Rightarrow> json option" where
  "opt_prop None name = None"
| "opt_prop (Some JNull) name = None"
| "opt_prop (Some v) name = get_prop v name"

text \<open>
  \<open>v?.substring(0, 50)\<close>: undefined and null short-circuit; a string has the method;
  on every other value the property \<open>substring\<close> is undefined and calling it raises
  a TypeError.
\<close>

fun opt_substring_throws :: "json option \<Rightarrow> bool" where
  "opt_substring_throws None = False"
| "opt_substring_throws (Some JNull) = False"
| "opt_substring_throws (Some (JStr s)) = False"
| "opt_substring_throws (Some _) = True"

text \<open>
  The string coercion \<open>${v}\<close> of a template literal raises a TypeError on an
  object that has a property \<open>toString\<close> of its own: the property of a parsed or
  stored value is never a function, so \<open>toString\<close> is skipped, and \<open>valueOf\<close>
  gives no primitive. An array is coerced by joining the coercions of its elements.
  Every other value has its text.
\<close>

fun coercion_throws :: "json \<Rightarrow> bool" where
  "coercion_throws (JObj kvs) = (''toString'' \<in> fst ` set kvs)"
| "coercion_throws (JArr xs) = (\<exists>x \<in> set xs. coercion_throws x)"
| "coercion_throws _ = False"

fun template_throws :: "json option \<Rightarrow> bool" where
  "template_throws None = False"
| "template_throws (Some v) = coercion_throws v"

text \<open>\<open>v.substring(0, 50)\<close>, evaluated by the handlers only where \<open>v\<close> is a string.\<close>

fun substring_0_50 :: "json option \<Rightarrow> js_string" where
  "substring_0_50 (Some (JStr s)) = take 50 s"
| "substring_0_50 _ = []"

text \<open>A value handed to the store: the driver writes \<open>undefined\<close> as null.\<close>

fun stored :: "json option \<Rightarrow> json" where
  "stored None = JNull"
| "stored (Some v) = v"

text \<open>\<open>a || b\<close> on a header value: null and the empty string give \<open>b\<close>.\<close>

fun or_else :: "js_string option \<Rightarrow> js_string \<Rightarrow> js_string" where
  "or_else None b = b"
| "or_else (Some a) b = (if a = [] then b else a)"

section \<open>The handlers' environment\<close>

datatype db_op = Connect | Find | DeleteMany | InsertOne | FindOne | UpdateMany

datatype exn = DbError db_op | SyntaxError | TypeError

text \<open>
  What a handler run takes from outside: which awaited database calls reject
  (\<open>failing\<close>), the successive readings of the clock by \<open>new Date()\<close>, the
  identifier the driver gives the next inserted document, the store's ordering of
  field values, which \<open>sort\<close> uses (an absent field is \<open>None\<close>), the text
  \<open>error.message\<close> of a raised error, and the store's reading of a query operator
  expression (\<open>query_operator\<close>, see the filters below).
\<close>

record env =
  failing :: "db_op list"
  clock :: "nat \<Rightarrow> int"
  fresh_id :: nat
  bson_le :: "json option \<Rightarrow> json option \<Rightarrow> bool"
  error_message :: "exn \<Rightarrow> js_string"
  query_operator :: "json \<Rightarrow> (json \<Rightarrow> bool) option"

text \<open>A request: its body as parsed by \<open>request.json()\<close> (\<open>None\<close> when the text is
  not JSON, which makes that call reject) and its headers.\<close>

record request =
  body :: "json option"
  header :: "string \<Rightarrow> js_string option"

record response =
  status :: nat
  payload :: json
  headers :: "(string \<times> js_string) list"

definition json_response :: "nat \<Rightarrow> json \<Rightarrow> response" where
  "json_response st v = \<lparr>status = st, payload = v, headers = []\<rparr>"

section \<open>Filters of the document store\<close>

text \<open>
  A condition \<open>{name: q}\<close> of a filter compares the stored field with \<open>q\<close>. When
  \<open>q\<close> is an object whose first name starts with \<open>$\<close>, the store reads it as an
  operator expression (\<open>$ne\<close>, \<open>$eq\<close>, \<open>$in\<close>, ...): what it then matches is the
  store's business and is taken from the environment, \<open>None\<close> when the store rejects
  the expression and the query raises. Every other \<open>q\<close> is matched for equality: by
  a field equal to \<open>q\<close> and by a field that is an array with an element equal to
  \<open>q\<close>. An absent field matches no \<open>q\<close> that the handlers pass (none is null).
\<close>

fun first_name_is_operator :: "json \<Rightarrow> bool" where
  "first_name_is_operator (JObj ((name, v) # kvs)) =
     (case name of [] \<Rightarrow> False | c # cs \<Rightarrow> c = CHR ''$'')"
| "first_name_is_operator _ = False"

fun equality_match :: "json \<Rightarrow> json \<Rightarrow> bool" where
  "equality_match q (JArr xs) = (JArr xs = q \<or> q \<in> set xs)"
| "equality_match q v = (v = q)"

definition field_condition :: "env \<Rightarrow> json \<Rightarrow> (json \<Rightarrow> bool) option" where
  "field_condition e q =
     (if first_name_is_operator q then query_operator e q else Some (equality_match q))"

section \<open>Pending payments: \<open>GET /api/admin/pending-payments\<close>\<close>











section \<open>Push subscriptions: \<open>/api/push-subscriptions\<close>\<close>

text \<open>
  A document of the collection \<open>ticket_subscriptions\<close>, with the fields that \<open>POST\<close>
  writes (\<open>subscriptionData\<close>, and \<open>_id\<close> given on insertion) and the one that
  \<open>DELETE\<close> adds (\<open>unsubscribedAt\<close>).
\<close>

record push_keys =
  p256dh :: json
  auth :: json

record push_subscription =
  endpoint :: json
  keys :: push_keys

record lifecycle_info =
  stage :: js_string
  lifecycle_createdAt :: int
  updatedAt :: int

record device_info =
  userAgent :: js_string
  timestamp :: int
  ip :: js_string

record subscription_doc =
  oid :: nat
  subscription :: push_subscription
  userType :: json
  ticketCodes :: "json list"
  isActive :: bool
  createdAt :: int
  lastUsed :: int
  lifecycle :: lifecycle_info
  autoExpire :: bool
  expiresAt :: "int option"
  deviceInfo :: device_info
  unsubscribedAt :: "int option"

definition Suscripcion :: js_string where
  "Suscripcion = u ''Suscripci'' @ [0xF3] @ u ''n''"

definition msg_datos_incompletos :: js_string where
  "msg_datos_incompletos = u ''Datos incompletos''"

definition msg_suscripcion_invalida :: js_string where
  "msg_suscripcion_invalida = Suscripcion @ u '' inv'' @ [0xE1] @ u ''lida''"

definition msg_guardada :: js_string where
  "msg_guardada = Suscripcion @ u '' guardada exitosamente''"

definition msg_endpoint_requerido :: js_string where
  "msg_endpoint_requerido = u ''Endpoint de suscripci'' @ [0xF3] @ u ''n requerido''"

definition msg_no_encontrada :: js_string where
  "msg_no_encontrada = Suscripcion @ u '' no encontrada''"

definition msg_desactivada :: js_string where
  "msg_desactivada = Suscripcion @ u '' desactivada exitosamente''"

definition msg_error_interno :: js_string where
  "msg_error_interno = u ''Error interno del servidor''"

definition message_only :: "js_string \<Rightarrow> json" where
  "message_only m = JObj [(''message'', JStr m)]"

text \<open>The filter \<open>{"subscription.endpoint": ep}\<close> of \<open>DELETE\<close>. Both handlers
  reach their filter only with an endpoint that is a non-empty string, which is
  matched for equality.\<close>

definition matches_endpoint :: "json \<Rightarrow> subscription_doc \<Rightarrow> bool" where
  "matches_endpoint ep d \<longleftrightarrow> equality_match ep (endpoint (subscription d))"

text \<open>The filter \<open>{"subscription.endpoint": ep, userType: ut}\<close> of \<open>POST\<close>, where
  \<open>ut\<close> is the \<open>userType\<close> of the request as it came: \<open>None\<close> when the store
  rejects it.\<close>

definition matches_endpoint_userType ::
  "env \<Rightarrow> json \<Rightarrow> json \<Rightarrow> (subscription_doc \<Rightarrow> bool) option" where
  "matches_endpoint_userType e ep ut =
     map_option (\<lambda>g d. matches_endpoint ep d \<and> g (userType d)) (field_condition e ut)"

text \<open>\<open>subscriptionData\<close>; the five dates are five successive readings of the clock.\<close>

definition subscriptionData ::
  "env \<Rightarrow> request \<Rightarrow> json option \<Rightarrow> json option \<Rightarrow> json option \<Rightarrow> subscription_doc" where
  "subscriptionData e req sub ut tc =
     \<lparr>oid = fresh_id e,
      subscription =
        \<lparr>endpoint = stored (opt_prop sub ''endpoint''),
         keys = \<lparr>p256dh = stored (opt_prop (opt_prop sub ''keys'') ''p256dh''),
                 auth = stored (opt_prop (opt_prop sub ''keys'') ''auth'')\<rparr>\<rparr>,
      userType = stored ut,
      ticketCodes = (if truthy tc then [stored tc] else []),
      isActive = True,
      createdAt = clock e 0,
      lastUsed = clock e 1,
      lifecycle = \<lparr>stage = u ''active'', lifecycle_createdAt = clock e 2,
                   updatedAt = clock e 3\<rparr>,
      autoExpire = False,
      expiresAt = None,
      deviceInfo =
        \<lparr>userAgent = or_else (header req ''user-agent'') (u ''Unknown''),
         timestamp = clock e 4,
         ip = or_else (header req ''x-forwarded-for'')
                (or_else (header req ''x-real-ip'') (u ''Unknown''))\<rparr>,
      unsubscribedAt = None\<rparr>"

text \<open>
  The \<open>try\<close> block of \<open>POST\<close>, from the first log line on, for a body \<open>b\<close>
  that has been parsed and destructured. It returns the collection as the run left
  it, with either the response or the error raised. Console output is not modelled;
  two arguments of log lines are, since evaluating them can raise: the argument
  \<open>subscription?.endpoint?.substring(0, 50)\<close> of the first log line, and the template
  literal with \<open>userType\<close> and \<open>ticketCode\<close> that is logged after \<open>insertOne\<close>
  and before \<open>findOne\<close>. The log of the existing subscriptions coerces \<open>_id\<close>,
  \<open>isActive\<close> and \<open>createdAt\<close>, which have their text. A filter that the store
  rejects makes the first query, \<open>find\<close>, raise. \<open>insertOne\<close> also rejects when the
  identifier is taken.
\<close>

definition POST_with_body ::
  "env \<Rightarrow> request \<Rightarrow> json \<Rightarrow> subscription_doc list
     \<Rightarrow> subscription_doc list \<times> (exn + response)" where
  "POST_with_body e req b subs =
     (let sub = get_prop b ''subscription'';
          ut = get_prop b ''userType'';
          tc = get_prop b ''ticketCode''
      in
      if opt_substring_throws (opt_prop sub ''endpoint'') then (subs, Inl TypeError)
      else if \<not> truthy sub \<or> \<not> truthy ut then
        (subs, Inr (json_response 400 (message_only msg_datos_incompletos)))
      else if \<not> truthy (opt_prop sub ''endpoint'')
             \<or> \<not> truthy (opt_prop (opt_prop sub ''keys'') ''p256dh'')
             \<or> \<not> truthy (opt_prop (opt_prop sub ''keys'') ''auth'') then
        (subs, Inr (json_response 400 (message_only msg_suscripcion_invalida)))
      else
        case matches_endpoint_userType e (stored (opt_prop sub ''endpoint'')) (stored ut) of
          None \<Rightarrow> (subs, Inl (DbError Find))
        | Some flt \<Rightarrow>
            if Find \<in> set (failing e) then (subs, Inl (DbError Find))
            else if DeleteMany \<in> set (failing e) then (subs, Inl (DbError DeleteMany))
            else
              let subs1 = filter (\<lambda>d. \<not> flt d) subs;
                  new = subscriptionData e req sub ut tc
              in
              if InsertOne \<in> set (failing e) \<or> oid new \<in> oid ` set subs1 then
                (subs1, Inl (DbError InsertOne))
              else
                let subs2 = subs1 @ [new] in
                if template_throws ut \<or> (truthy tc \<and> template_throws tc) then
                  (subs2, Inl TypeError)
                else if FindOne \<in> set (failing e) then (subs2, Inl (DbError FindOne))
                else
                  let savedSubscription = find (\<lambda>d. oid d = oid new) subs2 in
                  (subs2, Inr (json_response 201
                     (JObj [(''message'', JStr msg_guardada),
                            (''success'', JBool True),
                            (''subscriptionId'', JOid (oid new)),
                            (''debug'', JObj
                               [(''userType'', stored ut),
                                (''ticketCodes'',
                                   (case savedSubscription of
                                      None \<Rightarrow> JArr []
                                    | Some d \<Rightarrow> JArr (ticketCodes d))),
                                (''endpoint'',
                                   JStr (substring_0_50 (opt_prop sub ''endpoint'')
                                         @ u ''...'')),
                                (''lifecycle'', JStr (stage (lifecycle new)))])]))))"

text \<open>Connecting, reading the body and destructuring it: \<open>request.json()\<close> rejects
  on text that is not JSON, and destructuring \<open>null\<close> raises a TypeError.\<close>

definition POST_try ::
  "env \<Rightarrow> request \<Rightarrow> subscription_doc list \<Rightarrow> subscription_doc list \<times> (exn + response)" where
  "POST_try e req subs =
     (if Connect \<in> set (failing e) then (subs, Inl (DbError Connect))
      else case body req of
        None \<Rightarrow> (subs, Inl SyntaxError)
      | Some JNull \<Rightarrow> (subs, Inl TypeError)
      | Some b \<Rightarrow> POST_with_body e req b subs)"

text \<open>The bodies that get past the log line and the two checks of \<open>POST\<close>.\<close>

definition passes_validation :: "json \<Rightarrow> bool" where
  "passes_validation b \<longleftrightarrow>
     b \<noteq> JNull
     \<and> \<not> opt_substring_throws (opt_prop (get_prop b ''subscription'') ''endpoint'')
     \<and> truthy (get_prop b ''subscription'') \<and> truthy (get_prop b ''userType'')
     \<and> truthy (opt_prop (get_prop b ''subscription'') ''endpoint'')
     \<and> truthy (opt_prop (opt_prop (get_prop b ''subscription'') ''keys'') ''p256dh'')
     \<and> truthy (opt_prop (opt_prop (get_prop b ''subscription'') ''keys'') ''auth'')"

text \<open>For a body that passes: the filter of \<open>find\<close> and \<open>deleteMany\<close>, the record
  that \<open>insertOne\<close> is given, and whether the template literal logged after
  \<open>insertOne\<close> raises.\<close>

definition request_filter :: "env \<Rightarrow> json \<Rightarrow> (subscription_doc \<Rightarrow> bool) option" where
  "request_filter e b =
     matches_endpoint_userType e (stored (opt_prop (get_prop b ''subscription'') ''endpoint''))
       (stored (get_prop b ''userType''))"

definition request_record :: "env \<Rightarrow> request \<Rightarrow> json \<Rightarrow> subscription_doc" where
  "request_record e req b =
     subscriptionData e req (get_prop b ''subscription'') (get_prop b ''userType'')
       (get_prop b ''ticketCode'')"

definition log_after_insert_throws :: "json \<Rightarrow> bool" where
  "log_after_insert_throws b \<longleftrightarrow>
     template_throws (get_prop b ''userType'')
     \<or> (truthy (get_prop b ''ticketCode'') \<and> template_throws (get_prop b ''ticketCode''))"

text \<open>The \<open>catch\<close> block of \<open>POST\<close> and of \<open>DELETE\<close>: a 500 response and nothing else.\<close>

definition internal_error :: "env \<Rightarrow> exn \<Rightarrow> response" where
  "internal_error e err =
     json_response 500
       (JObj [(''message'', JStr msg_error_interno), (''error'', JStr (error_message e err))])"

definition POST ::
  "env \<Rightarrow> request \<Rightarrow> subscription_doc list \<Rightarrow> subscription_doc list \<times> response" where
  "POST e req subs =
     (case POST_try e req subs of
        (subs', Inr r) \<Rightarrow> (subs', r)
      | (subs', Inl err) \<Rightarrow> (subs', internal_error e err))"

text \<open>The \<open>$set\<close> of \<open>DELETE\<close>; its two dates are two successive readings of the clock.\<close>

definition unsubscribe :: "env \<Rightarrow> subscription_doc \<Rightarrow> subscription_doc" where
  "unsubscribe e d =
     d\<lparr>isActive := False,
       unsubscribedAt := Some (clock e 0),
       lifecycle := (lifecycle d)\<lparr>stage := u ''unsubscribed'', updatedAt := clock e 1\<rparr>\<rparr>"

text \<open>\<open>updateMany\<close>: the collection after the update, and \<open>modifiedCount\<close>, the number
  of matched documents that the update changed.\<close>

definition updateMany ::
  "(subscription_doc \<Rightarrow> bool) \<Rightarrow> (subscription_doc \<Rightarrow> subscription_doc) \<Rightarrow>
   subscription_doc list \<Rightarrow> subscription_doc list \<times> nat" where
  "updateMany flt upd subs =
     (map (\<lambda>d. if flt d then upd d else d) subs,
      length (filter (\<lambda>d. flt d \<and> upd d \<noteq> d) subs))"

text \<open>
  The log line that \<open>DELETE\<close> writes for every subscription it found coerces
  \<open>userType\<close>, \<open>ticketCodes\<close> and \<open>isActive\<close> in a template literal, before
  \<open>updateMany\<close> is called.
\<close>

definition log_line_throws :: "subscription_doc \<Rightarrow> bool" where
  "log_line_throws d \<longleftrightarrow>
     coercion_throws (userType d) \<or> coercion_throws (JArr (ticketCodes d))"

definition DELETE_with_body ::
  "env \<Rightarrow> json \<Rightarrow> subscription_doc list \<Rightarrow> subscription_doc list \<times> (exn + response)" where
  "DELETE_with_body e b subs =
     (let ep = opt_prop (get_prop b ''subscription'') ''endpoint'' in
      if opt_substring_throws ep then (subs, Inl TypeError)
      else if \<not> truthy ep then
        (subs, Inr (json_response 400 (message_only msg_endpoint_requerido)))
      else if Find \<in> set (failing e) then (subs, Inl (DbError Find))
      else
        let existingSubscriptions = filter (matches_endpoint (stored ep)) subs in
        if \<exists>d \<in> set existingSubscriptions. log_line_throws d then (subs, Inl TypeError)
        else if UpdateMany \<in> set (failing e) then (subs, Inl (DbError UpdateMany))
        else
          let (subs', modifiedCount) =
                updateMany (matches_endpoint (stored ep)) (unsubscribe e) subs
          in
          if modifiedCount = 0 then
            (subs', Inr (json_response 404 (message_only msg_no_encontrada)))
          else
            (subs', Inr (json_response 200
               (JObj [(''message'', JStr msg_desactivada),
                      (''deactivated'', JNum (of_nat modifiedCount))]))))"

definition DELETE_try ::
  "env \<Rightarrow> request \<Rightarrow> subscription_doc list \<Rightarrow> subscription_doc list \<times> (exn + response)" where
  "DELETE_try e req subs =
     (if Connect \<in> set (failing e) then (subs, Inl (DbError Connect))
      else case body req of
        None \<Rightarrow> (subs, Inl SyntaxError)
      | Some JNull \<Rightarrow> (subs, Inl TypeError)
      | Some b \<Rightarrow> DELETE_with_body e b subs)"

definition DELETE ::
  "env \<Rightarrow> request \<Rightarrow> subscription_doc list \<Rightarrow> subscription_doc list \<times> response" where
  "DELETE e req subs =
     (case DELETE_try e req subs of
        (subs', Inr r) \<Rightarrow> (subs', r)
      | (subs', Inl err) \<Rightarrow> (subs', internal_error e err))"

section \<open>The vehicle-registration component \<open>CarRegistration\<close>\<close>

text \<open>\<open>String.prototype.trim\<close> removes the white space and line terminators of
  ECMAScript from both ends.\<close>

definition is_white_space :: "16 word \<Rightarrow> bool" where
  "is_white_space c \<longleftrightarrow>
     c \<in> set [0x0009, 0x000A, 0x000B, 0x000C, 0x000D, 0x0020, 0x00A0, 0x1680,
              0x2000, 0x2001, 0x2002, 0x2003, 0x2004, 0x2005, 0x2006, 0x2007,
              0x2008, 0x2009, 0x200A, 0x2028, 0x2029, 0x202F, 0x205F, 0x3000, 0xFEFF]"

definition trim :: "js_string \<Rightarrow> js_string" where
  "trim s = rev (dropWhile is_white_space (rev (dropWhile is_white_space s)))"

record CarFormData =
  placa :: js_string
  marca :: js_string
  modelo :: js_string
  color :: js_string
  nombreDueno :: js_string
  telefono :: js_string
  ticketAsociado :: js_string
  nota :: js_string

definition emptyFormData :: CarFormData where
  "emptyFormData =
     \<lparr>placa = [], marca = [], modelo = [], color = [], nombreDueno = [],
      telefono = [], ticketAsociado = [], nota = []\<rparr>"

text \<open>The \<open>name\<close> attributes of the form's inputs.\<close>

datatype field_name =
  Placa | Marca | Modelo | Color | NombreDueno | Telefono | TicketAsociado | Nota

fun set_field :: "field_name \<Rightarrow> js_string \<Rightarrow> CarFormData \<Rightarrow> CarFormData" where
  "set_field Placa v fd = fd\<lparr>placa := v\<rparr>"
| "set_field Marca v fd = fd\<lparr>marca := v\<rparr>"
| "set_field Modelo v fd = fd\<lparr>modelo := v\<rparr>"
| "set_field Color v fd = fd\<lparr>color := v\<rparr>"
| "set_field NombreDueno v fd = fd\<lparr>nombreDueno := v\<rparr>"
| "set_field Telefono v fd = fd\<lparr>telefono := v\<rparr>"
| "set_field TicketAsociado v fd = fd\<lparr>ticketAsociado := v\<rparr>"
| "set_field Nota v fd = fd\<lparr>nota := v\<rparr>"

text \<open>\<open>Object.values(formData)\<close>, in the order the properties were created.\<close>

definition form_values :: "CarFormData \<Rightarrow> js_string list" where
  "form_values fd =
     [placa fd, marca fd, modelo fd, color fd, nombreDueno fd, telefono fd,
      ticketAsociado fd, nota fd]"

record captured_images =
  placaUrl :: "js_string option"
  vehiculoUrl :: "js_string option"
  confianzaPlaca :: "rat option"
  confianzaVehiculo :: "rat option"

text \<open>The argument of \<open>handleVehicleDetected\<close>.\<close>

record vehicle_data =
  detected_placa :: js_string
  detected_marca :: js_string
  detected_modelo :: js_string
  detected_color :: js_string
  plateImageUrl :: js_string
  vehicleImageUrl :: js_string
  plateConfidence :: rat
  vehicleConfidence :: rat

text \<open>
  The state of the component that the handlers below read or write. The lists of
  cars and tickets, \<open>isLoading\<close> and \<open>selectedCarImages\<close> are left out: no handler
  below reads them, and the handlers that write them write nothing else, except
  \<open>handleCarUpdate\<close>, which also sets the message.
\<close>

record component =
  formData :: CarFormData
  capturedImages :: "captured_images option"
  isSubmitting :: bool
  message :: js_string
  showVehicleCapture :: bool
  cameraRetryCount :: nat
  isMobile :: bool

definition initial :: "bool \<Rightarrow> component" where
  "initial mobile =
     \<lparr>formData = emptyFormData, capturedImages = None, isSubmitting = False,
      message = [], showVehicleCapture = False, cameraRetryCount = 0,
      isMobile = mobile\<rparr>"

definition maxRetries :: nat where
  "maxRetries = 10"

definition check_mark :: js_string where
  "check_mark = [0x2705, 0x20]"

definition cross_mark :: js_string where
  "cross_mark = [0x274C, 0x20]"

definition msg_error_registrar :: js_string where
  "msg_error_registrar = cross_mark @ u ''Error al registrar el carro''"

definition msg_max_intentos :: js_string where
  "msg_max_intentos =
     cross_mark @ u ''M'' @ [0xE1] @ u ''ximo de intentos de c'' @ [0xE1]
       @ u ''mara alcanzado. Verifique permisos o hardware.''"

definition msg_capturado :: "vehicle_data \<Rightarrow> js_string" where
  "msg_capturado vd =
     check_mark @ u ''Veh'' @ [0xED] @ u ''culo capturado: '' @ detected_marca vd @ u '' ''
       @ detected_modelo vd @ u '' '' @ detected_color vd @ u '' - Placa: ''
       @ detected_placa vd"

definition msg_actualizada :: js_string where
  "msg_actualizada =
     check_mark @ u ''Informaci'' @ [0xF3] @ u ''n del veh'' @ [0xED]
       @ u ''culo actualizada correctamente''"

definition handleInputChange :: "field_name \<Rightarrow> js_string \<Rightarrow> component \<Rightarrow> component" where
  "handleInputChange name v st = st\<lparr>formData := set_field name v (formData st)\<rparr>"

definition handleTicketChange :: "js_string \<Rightarrow> component \<Rightarrow> component" where
  "handleTicketChange v st = st\<lparr>formData := (formData st)\<lparr>ticketAsociado := v\<rparr>\<rparr>"

definition handleVehicleDetected :: "vehicle_data \<Rightarrow> component \<Rightarrow> component" where
  "handleVehicleDetected vd st =
     st\<lparr>formData := (formData st)\<lparr>placa := detected_placa vd, marca := detected_marca vd,
                                   modelo := detected_modelo vd, color := detected_color vd\<rparr>,
        capturedImages := Some \<lparr>placaUrl = Some (plateImageUrl vd),
                                vehiculoUrl = Some (vehicleImageUrl vd),
                                confianzaPlaca = Some (plateConfidence vd),
                                confianzaVehiculo = Some (vehicleConfidence vd)\<rparr>,
        showVehicleCapture := False,
        message := msg_capturado vd\<rparr>"

text \<open>
  \<open>JSON.stringify(submitData)\<close>, the body of the request to \<open>/api/admin/cars\<close>:
  a property whose value is \<open>undefined\<close> is left out of the text.
\<close>

definition defined_property :: "string \<Rightarrow> json option \<Rightarrow> document" where
  "defined_property name v = (case v of None \<Rightarrow> [] | Some x \<Rightarrow> [(name, x)])"

definition imagenes :: "bool \<Rightarrow> captured_images \<Rightarrow> json" where
  "imagenes mobile ci =
     JObj (defined_property ''plateImageUrl'' (map_option JStr (placaUrl ci))
         @ defined_property ''vehicleImageUrl'' (map_option JStr (vehiculoUrl ci))
         @ [(''capturaMetodo'',
              JStr (if mobile then u ''camara_movil'' else u ''camara_desktop''))]
         @ defined_property ''confianzaPlaca'' (map_option JNum (confianzaPlaca ci))
         @ defined_property ''confianzaVehiculo'' (map_option JNum (confianzaVehiculo ci)))"

definition submitData :: "component \<Rightarrow> document" where
  "submitData st =
     [(''placa'', JStr (placa (formData st))),
      (''marca'', JStr (marca (formData st))),
      (''modelo'', JStr (modelo (formData st))),
      (''color'', JStr (color (formData st))),
      (''nombreDue'' @ [CHR 0xC3, CHR 0xB1] @ ''o'', JStr (nombreDueno (formData st))),
      (''telefono'', JStr (telefono (formData st))),
      (''ticketAsociado'', JStr (ticketAsociado (formData st))),
      (''nota'', JStr (nota (formData st)))]
     @ defined_property ''imagenes'' (map_option (imagenes (isMobile st)) (capturedImages st))"

text \<open>
  \<open>handleSubmit\<close> runs in two parts around \<open>await fetch\<close>. The first sets the flags
  and sends \<open>submitData\<close>; the second handles what came back: the request failed, or a
  response arrived with its \<open>ok\<close> flag and its body as parsed by \<open>response.json()\<close>
  (\<open>None\<close> when the text is not JSON). The message is built by a template literal
  from \<open>data.message\<close>, before anything else is set: reading the property raises on
  \<open>null\<close>, and the coercion raises as told by \<open>template_throws\<close>; \<open>to_text\<close>
  is the text of a value whose coercion does not raise. \<open>onUpdate_raises\<close> tells
  whether the callback \<open>onUpdate\<close> raises.
\<close>

datatype fetch_result = NetworkError | HttpResponse bool "json option"

definition handleSubmit_begin :: "component \<Rightarrow> component \<times> document" where
  "handleSubmit_begin st = (st\<lparr>isSubmitting := True, message := []\<rparr>, submitData st)"

definition handleSubmit_end ::
  "(json option \<Rightarrow> js_string) \<Rightarrow> bool \<Rightarrow> fetch_result \<Rightarrow> component \<Rightarrow> component" where
  "handleSubmit_end to_text onUpdate_raises res st =
     (case res of
        NetworkError \<Rightarrow> st\<lparr>message := msg_error_registrar, isSubmitting := False\<rparr>
      | HttpResponse ok None \<Rightarrow> st\<lparr>message := msg_error_registrar, isSubmitting := False\<rparr>
      | HttpResponse ok (Some JNull) \<Rightarrow>
          st\<lparr>message := msg_error_registrar, isSubmitting := False\<rparr>
      | HttpResponse ok (Some data) \<Rightarrow>
          if template_throws (get_prop data ''message'') then
            st\<lparr>message := msg_error_registrar, isSubmitting := False\<rparr>
          else if ok then
            let st1 = st\<lparr>message := check_mark @ to_text (get_prop data ''message''),
                         formData := emptyFormData,
                         capturedImages := None\<rparr>
            in if onUpdate_raises
               then st1\<lparr>message := msg_error_registrar, isSubmitting := False\<rparr>
               else st1\<lparr>isSubmitting := False\<rparr>
          else st\<lparr>message := cross_mark @ to_text (get_prop data ''message''),
                  isSubmitting := False\<rparr>)"

definition isFormValid :: "component \<Rightarrow> bool" where
  "isFormValid st =
     (if isMobile st then
        trim (placa (formData st)) \<noteq> [] \<and> trim (ticketAsociado (formData st)) \<noteq> []
      else list_all (\<lambda>v. trim v \<noteq> []) (form_values (formData st)))"

text \<open>The attribute \<open>disabled={!isFormValid() || isSubmitting}\<close> of both submit buttons.\<close>

definition submit_disabled :: "component \<Rightarrow> bool" where
  "submit_disabled st \<longleftrightarrow> \<not> isFormValid st \<or> isSubmitting st"

definition openCamera :: "component \<Rightarrow> component" where
  "openCamera st =
     (if cameraRetryCount st < maxRetries then
        st\<lparr>showVehicleCapture := True, cameraRetryCount := cameraRetryCount st + 1\<rparr>
      else st\<lparr>message := msg_max_intentos\<rparr>)"

text \<open>Everything that can happen to the state: the handlers, the timers that clear
  the message, and a change of what \<open>useMobileDetection\<close> reports.\<close>

datatype event =
    InputChange field_name js_string
  | TicketChange js_string
  | VehicleDetected vehicle_data
  | CancelCapture
  | SubmitBegin
  | SubmitEnd bool fetch_result
  | OpenCamera
  | CarUpdate
  | MessageTimeout
  | MobileDetection bool

fun step :: "(json option \<Rightarrow> js_string) \<Rightarrow> component \<Rightarrow> event \<Rightarrow> component" where
  "step to_text st (InputChange name v) = handleInputChange name v st"
| "step to_text st (TicketChange v) = handleTicketChange v st"
| "step to_text st (VehicleDetected vd) = handleVehicleDetected vd st"
| "step to_text st CancelCapture = st\<lparr>showVehicleCapture := False\<rparr>"
| "step to_text st SubmitBegin = fst (handleSubmit_begin st)"
| "step to_text st (SubmitEnd r res) = handleSubmit_end to_text r res st"
| "step to_text st OpenCamera = openCamera st"
| "step to_text st CarUpdate = st\<lparr>message := msg_actualizada\<rparr>"
| "step to_text st MessageTimeout = st\<lparr>message := []\<rparr>"
| "step to_text st (MobileDetection b) = st\<lparr>isMobile := b\<rparr>"

definition run :: "(json option \<Rightarrow> js_string) \<Rightarrow> component \<Rightarrow> event list \<Rightarrow> component" where
  "run to_text st evs = foldl (step to_text) st evs"

text \<open>The captured images, when there are any, have all four of their values.\<close>

definition complete_images :: "component \<Rightarrow> bool" where
  "complete_images st \<longleftrightarrow>
     (case capturedImages st of
        None \<Rightarrow> True
      | Some ci \<Rightarrow> placaUrl ci \<noteq> None \<and> vehiculoUrl ci \<noteq> None
                   \<and> confianzaPlaca ci \<noteq> None \<and> confianzaVehiculo ci \<noteq> None)"

section \<open>Concrete inputs\<close>

text \<open>A store ordering that compares dates by their time and puts every other value
  with time 0; a clock; an environment in which no database call fails.\<close>

definition date_rank :: "json option \<Rightarrow> int" where
  "date_rank v = (case v of Some (JDate t) \<Rightarrow> t | _ \<Rightarrow> 0)"

definition date_le :: "json option \<Rightarrow> json option \<Rightarrow> bool" where
  "date_le a b \<longleftrightarrow> date_rank a \<le> date_rank b"

definition example_clock :: "nat \<Rightarrow> int" where
  "example_clock n = 1700000000000 + int n"

definition example_error_message :: "exn \<Rightarrow> js_string" where
  "example_error_message err = u ''failure''"

text \<open>A store that knows the operators \<open>$eq\<close> and \<open>$ne\<close> and rejects every other
  operator expression.\<close>

fun example_operators :: "json \<Rightarrow> (json \<Rightarrow> bool) option" where
  "example_operators (JObj [(name, q)]) =
     (if name = ''$eq'' then Some (equality_match q)
      else if name = ''$ne'' then Some (\<lambda>v. \<not> equality_match q v)
      else None)"
| "example_operators _ = None"

definition env_failing :: "db_op list \<Rightarrow> env" where
  "env_failing ops =
     \<lparr>failing = ops, clock = example_clock, fresh_id = 7, bson_le = date_le,
      error_message = example_error_message, query_operator = example_operators\<rparr>"



definition no_headers :: "string \<Rightarrow> js_string option" where
  "no_headers name = None"

definition example_endpoint :: json where
  "example_endpoint = JStr (u ''https://push.example/abc'')"

definition example_keys :: json where
  "example_keys = JObj [(''p256dh'', JStr (u ''key'')), (''auth'', JStr (u ''secret''))]"


text \<open>A body whose endpoint is the number 12345 and which has no \<open>userType\<close>.\<close>

definition numeric_endpoint_request :: request where
  "numeric_endpoint_request =
     \<lparr>body = Some (JObj [(''subscription'',
                          JObj [(''endpoint'', JNum 12345), (''keys'', example_keys)])]),
      header = no_headers\<rparr>"


definition unsubscribe_request :: request where
  "unsubscribe_request =
     \<lparr>body = Some (JObj [(''subscription'', JObj [(''endpoint'', example_endpoint)])]),
      header = no_headers\<rparr>"

definition example_doc :: "nat \<Rightarrow> json \<Rightarrow> json \<Rightarrow> subscription_doc" where
  "example_doc i ep ut =
     \<lparr>oid = i,
      subscription = \<lparr>endpoint = ep,
                      keys = \<lparr>p256dh = JStr (u ''key''), auth = JStr (u ''secret'')\<rparr>\<rparr>,
      userType = ut, ticketCodes = [], isActive = True, createdAt = 5, lastUsed = 5,
      lifecycle = \<lparr>stage = u ''active'', lifecycle_createdAt = 5, updatedAt = 5\<rparr>,
      autoExpire = False, expiresAt = None,
      deviceInfo = \<lparr>userAgent = u ''Unknown'', timestamp = 5, ip = u ''Unknown''\<rparr>,
      unsubscribedAt = None\<rparr>"

text \<open>Three stored subscriptions: two for the example endpoint (user types \<open>user\<close>
  and \<open>admin\<close>) and one for another endpoint.\<close>

definition example_subs :: "subscription_doc list" where
  "example_subs =
     [example_doc 1 example_endpoint (JStr (u ''user'')),
      example_doc 2 example_endpoint (JStr (u ''admin'')),
      example_doc 3 (JStr (u ''https://push.example/xyz'')) (JStr (u ''user''))]"

definition example_to_text :: "json option \<Rightarrow> js_string" where
  "example_to_text v = (case v of Some (JStr s) \<Rightarrow> s | _ \<Rightarrow> u ''undefined'')"

definition example_vehicle :: vehicle_data where
  "example_vehicle =
     \<lparr>detected_placa = u ''ABC123'', detected_marca = u ''Toyota'',
      detected_modelo = u ''Corolla'', detected_color = u ''Blanco'',
      plateImageUrl = u ''https://img.example/p.jpg'',
      vehicleImageUrl = u ''https://img.example/v.jpg'',
      plateConfidence = 9 / 10, vehicleConfidence = 4 / 5\<rparr>"

text \<open>A mobile form with plate and ticket filled in while a submission is under way.\<close>

definition submitting_state :: component where
  "submitting_state =
     \<lparr>formData = emptyFormData\<lparr>placa := u ''ABC123'', ticketAsociado := u ''T-001''\<rparr>,
      capturedImages = None, isSubmitting = True, message = [],
      showVehicleCapture = False, cameraRetryCount = 0, isMobile = True\<rparr>"

text \<open>A desktop form with every field filled in and no submission under way.\<close>

definition filled_form :: CarFormData where
  "filled_form =
     \<lparr>placa = u ''ABC123'', marca = u ''Toyota'', modelo = u ''Corolla'',
      color = u ''Blanco'', nombreDueno = u ''Juan'', telefono = u ''0414'',
      ticketAsociado = u ''T-001'', nota = u ''ok''\<rparr>"

definition filled_state :: component where
  "filled_state =
     \<lparr>formData = filled_form, capturedImages = None, isSubmitting = False, message = [],
      showVehicleCapture = False, cameraRetryCount = 0, isMobile = False\<rparr>"

text \<open>The mobile component after one capture.\<close>

definition captured_state :: component where
  "captured_state = run example_to_text (initial True) [OpenCamera, VehicleDetected example_vehicle]"

text \<open>Ten times: open the camera, cancel the capture.\<close>

definition ten_attempts :: "event list" where
  "ten_attempts = concat (replicate 10 [OpenCamera, CancelCapture])"


text \<open>The example environment with another identifier for the next document.\<close>

definition env_with_id :: "nat \<Rightarrow> env" where
  "env_with_id i = (env_failing [])\<lparr>fresh_id := i\<rparr>"

text \<open>Subscription requests for the example endpoint with a given \<open>userType\<close>.\<close>

definition request_with_userType :: "json \<Rightarrow> request" where
  "request_with_userType ut =
     \<lparr>body = Some (JObj [(''subscription'',
                          JObj [(''endpoint'', example_endpoint), (''keys'', example_keys)]),
                        (''userType'', ut)]),
      header = no_headers\<rparr>"

definition eq_user :: json where
  "eq_user = JObj [(''$eq'', JStr (u ''user''))]"

definition ne_zzz :: json where
  "ne_zzz = JObj [(''$ne'', JStr (u ''zzz''))]"



text \<open>The collection after a first subscription request with user type \<open>eq_user\<close>
  on an empty collection.\<close>

definition after_first_request :: "subscription_doc list" where
  "after_first_request = fst (POST (env_with_id 7) (request_with_userType eq_user) [])"


section \<open>Properties of the pending-payments endpoint\<close>





















section \<open>Properties of the push-subscription endpoint\<close>

lemma truthy_Some: "truthy v \<Longrightarrow> \<exists>x. v = Some x \<and> x \<noteq> JNull"
  by (cases v rule: truthy.cases) auto

lemma opt_prop_Some: "opt_prop v name = Some y \<Longrightarrow> \<exists>x. v = Some x \<and> get_prop x name = Some y"
  by (cases "(v, name)" rule: opt_prop.cases) auto

lemma truthy_opt_prop:
  assumes "truthy (opt_prop v name)"
  shows "\<exists>x y. v = Some x \<and> get_prop x name = Some y \<and> opt_prop v name = Some y"
proof -
  from assms obtain y where y: "opt_prop v name = Some y"
    using truthy_Some by blast
  then obtain x where "v = Some x" "get_prop x name = Some y"
    using opt_prop_Some by blast
  with y show ?thesis by simp
qed

lemma equality_match_refl: "equality_match q q"
  by (cases q) simp_all

lemma equality_match_iff:
  "equality_match q v \<longleftrightarrow> v = q \<or> (\<exists>xs. v = JArr xs \<and> q \<in> set xs)"
  by (cases v) auto

lemma status_internal_error: "status (internal_error e err) = 500"
  by (simp add: internal_error_def json_response_def)

lemma status_json_response: "status (json_response n v) = n"
  by (simp add: json_response_def)

lemma POST_try_parsed:
  assumes "Connect \<notin> set (failing e)" and "body req = Some b" and "b \<noteq> JNull"
  shows "POST_try e req subs = POST_with_body e req b subs"
  using assms unfolding POST_try_def by (cases b) simp_all

lemma DELETE_try_parsed:
  assumes "Connect \<notin> set (failing e)" and "body req = Some b" and "b \<noteq> JNull"
  shows "DELETE_try e req subs = DELETE_with_body e b subs"
  using assms unfolding DELETE_try_def by (cases b) simp_all

lemma POST_validation:
  assumes "Connect \<notin> set (failing e)" and "body req = Some b" and "b \<noteq> JNull"
    and "\<not> opt_substring_throws (opt_prop (get_prop b ''subscription'') ''endpoint'')"
  shows "\<not> truthy (get_prop b ''subscription'') \<or> \<not> truthy (get_prop b ''userType'')
         \<Longrightarrow> POST e req subs = (subs, json_response 400 (message_only msg_datos_incompletos))"
    and "truthy (get_prop b ''subscription'') \<Longrightarrow> truthy (get_prop b ''userType'')
         \<Longrightarrow> \<not> truthy (opt_prop (get_prop b ''subscription'') ''endpoint'')
             \<or> \<not> truthy (opt_prop (opt_prop (get_prop b ''subscription'') ''keys'') ''p256dh'')
             \<or> \<not> truthy (opt_prop (opt_prop (get_prop b ''subscription'') ''keys'') ''auth'')
         \<Longrightarrow> POST e req subs = (subs, json_response 400 (message_only msg_suscripcion_invalida))"
  unfolding POST_def POST_try_parsed [OF assms(1-3)] POST_with_body_def
  using assms(4) by (simp_all add: Let_def)

text \<open>What \<open>POST\<close> does with a body that passes the checks, step by step.\<close>

lemma POST_with_body_valid:
  assumes "passes_validation b"
  shows "POST_with_body e req b subs =
    (case request_filter e b of
       None \<Rightarrow> (subs, Inl (DbError Find))
     | Some flt \<Rightarrow>
         if Find \<in> set (failing e) then (subs, Inl (DbError Find))
         else if DeleteMany \<in> set (failing e) then (subs, Inl (DbError DeleteMany))
         else if InsertOne \<in> set (failing e)
                 \<or> fresh_id e \<in> oid ` set (filter (\<lambda>d. \<not> flt d) subs)
           then (filter (\<lambda>d. \<not> flt d) subs, Inl (DbError InsertOne))
         else if log_after_insert_throws b
           then (filter (\<lambda>d. \<not> flt d) subs @ [request_record e req b], Inl TypeError)
         else if FindOne \<in> set (failing e)
           then (filter (\<lambda>d. \<not> flt d) subs @ [request_record e req b], Inl (DbError FindOne))
         else (filter (\<lambda>d. \<not> flt d) subs @ [request_record e req b],
               Inr (json_response 201
                 (JObj [(''message'', JStr msg_guardada),
                        (''success'', JBool True),
                        (''subscriptionId'', JOid (fresh_id e)),
                        (''debug'', JObj
                           [(''userType'', stored (get_prop b ''userType'')),
                            (''ticketCodes'', JArr (ticketCodes (request_record e req b))),
                            (''endpoint'',
                               JStr (substring_0_50
                                       (opt_prop (get_prop b ''subscription'') ''endpoint'')
                                     @ u ''...'')),
                            (''lifecycle'', JStr (u ''active''))])]))))"
proof -
  have id: "oid (subscriptionData e req s t c) = fresh_id e" for s t c
    by (simp add: subscriptionData_def)
  have stage: "stage (lifecycle (subscriptionData e req s t c)) = u ''active''" for s t c
    by (simp add: subscriptionData_def)
  have saved: "find (\<lambda>d. oid d = fresh_id e) (xs @ [subscriptionData e req s t c])
                 = Some (subscriptionData e req s t c)"
    if "fresh_id e \<notin> oid ` set xs" for xs s t c
    using that by (induction xs) (auto simp: id)
  show ?thesis
    using assms
    by (auto simp: POST_with_body_def passes_validation_def request_filter_def
        request_record_def log_after_insert_throws_def Let_def id stage saved
        split: option.splits)
qed



lemma passes_validation_not_null: "passes_validation b \<Longrightarrow> b \<noteq> JNull"
  by (simp add: passes_validation_def)




text \<open>A request that passes the checks, with a \<open>userType\<close> that is no operator
  expression and a log line that can be written, on a working database: the answer is
  201, the records that the filter matches are gone, one record is added, and exactly
  one record has that endpoint and user type.\<close>

lemma POST_replaces_plain_userType:
  assumes "body req = Some b" and "passes_validation b"
    and ep: "opt_prop (get_prop b ''subscription'') ''endpoint'' = Some ep"
    and ut: "get_prop b ''userType'' = Some ut" and plain: "\<not> first_name_is_operator ut"
    and db: "set (failing e) \<inter> {Connect, Find, DeleteMany, InsertOne, FindOne} = {}"
    and fresh: "fresh_id e \<notin> oid ` set subs"
    and log: "\<not> log_after_insert_throws b"
  shows "status (snd (POST e req subs)) = 201"
    and "fst (POST e req subs) =
           filter (\<lambda>d. \<not> (equality_match ep (endpoint (subscription d))
                           \<and> equality_match ut (userType d))) subs
           @ [request_record e req b]"
    and "length (filter (\<lambda>d. endpoint (subscription d) = ep \<and> userType d = ut)
                  (fst (POST e req subs))) = 1"
proof -
  let ?flt = "\<lambda>d. equality_match ep (endpoint (subscription d))
                     \<and> equality_match ut (userType d)"
  let ?new = "request_record e req b"
  have flt: "request_filter e b = Some ?flt"
    using plain
    by (simp add: request_filter_def matches_endpoint_userType_def field_condition_def
        matches_endpoint_def ep ut)
  have "POST_try e req subs = POST_with_body e req b subs"
    using assms(1,2) db by (simp add: POST_try_parsed passes_validation_not_null)
  then have run: "POST e req subs =
      (filter (\<lambda>d. \<not> ?flt d) subs @ [?new],
       json_response 201
         (JObj [(''message'', JStr msg_guardada),
                (''success'', JBool True),
                (''subscriptionId'', JOid (fresh_id e)),
                (''debug'', JObj
                   [(''userType'', stored (get_prop b ''userType'')),
                    (''ticketCodes'', JArr (ticketCodes ?new)),
                    (''endpoint'',
                       JStr (substring_0_50
                               (opt_prop (get_prop b ''subscription'') ''endpoint'')
                             @ u ''...'')),
                    (''lifecycle'', JStr (u ''active''))])]))"
    using db fresh log
    by (auto simp: POST_def POST_with_body_valid [OF assms(2)] flt)
  show "status (snd (POST e req subs)) = 201"
    by (simp add: run status_json_response)
  show store: "fst (POST e req subs) = filter (\<lambda>d. \<not> ?flt d) subs @ [?new]"
    by (simp add: run)
  have new: "endpoint (subscription ?new) = ep \<and> userType ?new = ut"
    by (simp add: request_record_def subscriptionData_def ep ut)
  have "filter (\<lambda>d. endpoint (subscription d) = ep \<and> userType d = ut)
          (filter (\<lambda>d. \<not> ?flt d) subs) = []"
    by (auto simp: filter_empty_conv equality_match_refl)
  with new show "length (filter (\<lambda>d. endpoint (subscription d) = ep \<and> userType d = ut)
                  (fst (POST e req subs))) = 1"
    by (simp add: store)
qed

lemma example_request_filter:
  "request_filter e
     (JObj [(''subscription'', JObj [(''endpoint'', example_endpoint), (''keys'', example_keys)]),
            (''userType'', ut)])
   = map_option (\<lambda>g d. equality_match example_endpoint (endpoint (subscription d))
                          \<and> g (userType d)) (field_condition e ut)"
  by (simp add: request_filter_def matches_endpoint_userType_def matches_endpoint_def)

lemma example_request_passes:
  "truthy (Some ut) \<Longrightarrow>
   passes_validation
     (JObj [(''subscription'', JObj [(''endpoint'', example_endpoint), (''keys'', example_keys)]),
            (''userType'', ut)])"
  by (simp add: passes_validation_def example_endpoint_def example_keys_def u_def)

lemma POST_example_request:
  assumes "truthy (Some ut)" and "field_condition (env_with_id i) ut = Some g"
    and "\<not> coercion_throws ut"
    and "i \<notin> oid ` set (filter (\<lambda>d. \<not> (equality_match example_endpoint
                                              (endpoint (subscription d)) \<and> g (userType d))) subs)"
  shows "fst (POST (env_with_id i) (request_with_userType ut) subs) =
           filter (\<lambda>d. \<not> (equality_match example_endpoint (endpoint (subscription d))
                           \<and> g (userType d))) subs
           @ [request_record (env_with_id i) (request_with_userType ut)
                (JObj [(''subscription'',
                          JObj [(''endpoint'', example_endpoint), (''keys'', example_keys)]),
                       (''userType'', ut)])]"
    and "status (snd (POST (env_with_id i) (request_with_userType ut) subs)) = 201"
proof -
  let ?b = "JObj [(''subscription'',
                    JObj [(''endpoint'', example_endpoint), (''keys'', example_keys)]),
                  (''userType'', ut)]"
  have env: "failing (env_with_id i) = []" "fresh_id (env_with_id i) = i"
    by (simp_all add: env_with_id_def env_failing_def)
  have body: "body (request_with_userType ut) = Some ?b"
    by (simp add: request_with_userType_def)
  have pass: "passes_validation ?b"
    using assms(1) by (rule example_request_passes)
  have log: "\<not> log_after_insert_throws ?b"
    using assms(3) by (simp add: log_after_insert_throws_def)
  have "POST_try (env_with_id i) (request_with_userType ut) subs
          = POST_with_body (env_with_id i) (request_with_userType ut) ?b subs"
    by (rule POST_try_parsed) (simp_all add: env body)
  then have run: "POST (env_with_id i) (request_with_userType ut) subs =
      (case POST_with_body (env_with_id i) (request_with_userType ut) ?b subs of
         (subs', Inr r) \<Rightarrow> (subs', r)
       | (subs', Inl err) \<Rightarrow> (subs', internal_error (env_with_id i) err))"
    by (simp add: POST_def)
  show "fst (POST (env_with_id i) (request_with_userType ut) subs) =
           filter (\<lambda>d. \<not> (equality_match example_endpoint (endpoint (subscription d))
                           \<and> g (userType d))) subs
           @ [request_record (env_with_id i) (request_with_userType ut) ?b]"
    unfolding run POST_with_body_valid [OF pass] example_request_filter
    using assms(2,4) log by (simp add: env)
  show "status (snd (POST (env_with_id i) (request_with_userType ut) subs)) = 201"
    unfolding run POST_with_body_valid [OF pass] example_request_filter
    using assms(2,4) log by (simp add: env status_json_response)
qed

lemma eq_user_condition:
  "field_condition (env_with_id i) eq_user = Some (equality_match (JStr (u ''user'')))"
  by (simp add: field_condition_def env_with_id_def env_failing_def eq_user_def)

lemma ne_zzz_condition:
  "field_condition (env_with_id i) ne_zzz = Some (\<lambda>v. \<not> equality_match (JStr (u ''zzz'')) v)"
  by (simp add: field_condition_def env_with_id_def env_failing_def ne_zzz_def)

lemma userType_request_record:
  "userType (request_record e req b) = stored (get_prop b ''userType'')"
  "oid (request_record e req b) = fresh_id e"
  "endpoint (subscription (request_record e req b))
     = stored (opt_prop (get_prop b ''subscription'') ''endpoint'')"
  by (simp_all add: request_record_def subscriptionData_def)

lemma after_first_request_eq:
  "after_first_request =
     [request_record (env_with_id 7) (request_with_userType eq_user)
        (JObj [(''subscription'',
                  JObj [(''endpoint'', example_endpoint), (''keys'', example_keys)]),
               (''userType'', eq_user)])]"
  unfolding after_first_request_def
  by (subst POST_example_request(1) [OF _ eq_user_condition]) (simp_all add: eq_user_def)

text \<open>
  Claim C1 says that after a successful \<open>POST\<close> the store holds exactly one record
  with the endpoint and user type of the request. The request's \<open>userType\<close> goes into
  the filter of \<open>deleteMany\<close> as it came; when it is an object such as
  \<open>{"$eq": "user"}\<close> the store reads it as an operator expression. The record
  stored by a first such request has the object as its user type, which the expression
  does not match, so a second identical request is answered 201 and leaves two records
  with that endpoint and user type. With \<open>{"$ne": "zzz"}\<close> the same filter deletes
  the records of the other user types for the endpoint.
\<close>

theorem POST_operator_userType_duplicates:
  "status (snd (POST (env_with_id 7) (request_with_userType eq_user) [])) = 201
   \<and> status (snd (POST (env_with_id 8) (request_with_userType eq_user) after_first_request))
       = 201
   \<and> map oid (fst (POST (env_with_id 8) (request_with_userType eq_user) after_first_request))
       = [7, 8]
   \<and> map userType
         (fst (POST (env_with_id 8) (request_with_userType eq_user) after_first_request))
       = [eq_user, eq_user]
   \<and> map (endpoint \<circ> subscription)
         (fst (POST (env_with_id 8) (request_with_userType eq_user) after_first_request))
       = [example_endpoint, example_endpoint]
   \<and> map oid (fst (POST (env_with_id 7) (request_with_userType ne_zzz) example_subs)) = [3, 7]"
proof -
  have t: "truthy (Some eq_user)" "\<not> coercion_throws eq_user"
    "truthy (Some ne_zzz)" "\<not> coercion_throws ne_zzz"
    by (simp_all add: eq_user_def ne_zzz_def)
  have first: "status (snd (POST (env_with_id 7) (request_with_userType eq_user) [])) = 201"
    by (rule POST_example_request(2) [OF t(1) eq_user_condition t(2)]) simp
  have kept: "filter (\<lambda>d. \<not> (equality_match example_endpoint (endpoint (subscription d))
                 \<and> equality_match (JStr (u ''user'')) (userType d))) after_first_request
               = after_first_request"
    by (simp add: after_first_request_eq userType_request_record eq_user_def)
  have fresh8: "8 \<notin> oid ` set (filter (\<lambda>d. \<not> (equality_match example_endpoint
                   (endpoint (subscription d))
                 \<and> equality_match (JStr (u ''user'')) (userType d))) after_first_request)"
    unfolding kept by (simp add: after_first_request_eq userType_request_record env_with_id_def)
  note second = POST_example_request [OF t(1) eq_user_condition t(2) fresh8]
  have store: "fst (POST (env_with_id 8) (request_with_userType eq_user) after_first_request)
      = after_first_request
        @ [request_record (env_with_id 8) (request_with_userType eq_user)
             (JObj [(''subscription'',
                       JObj [(''endpoint'', example_endpoint), (''keys'', example_keys)]),
                    (''userType'', eq_user)])]"
    unfolding second(1) kept by simp
  have ids: "map oid (fst (POST (env_with_id 8) (request_with_userType eq_user)
                             after_first_request)) = [7, 8]"
    unfolding store
    by (simp add: after_first_request_eq userType_request_record env_with_id_def)
  have types: "map userType (fst (POST (env_with_id 8) (request_with_userType eq_user)
                                    after_first_request)) = [eq_user, eq_user]"
    unfolding store by (simp add: after_first_request_eq userType_request_record)
  have ends: "map (endpoint \<circ> subscription)
                (fst (POST (env_with_id 8) (request_with_userType eq_user)
                        after_first_request)) = [example_endpoint, example_endpoint]"
    unfolding store by (simp add: after_first_request_eq userType_request_record)
  have gone: "filter (\<lambda>d. \<not> (equality_match example_endpoint (endpoint (subscription d))
                 \<and> \<not> equality_match (JStr (u ''zzz'')) (userType d))) example_subs
               = [example_doc 3 (JStr (u ''https://push.example/xyz'')) (JStr (u ''user''))]"
    by (simp add: example_subs_def example_doc_def example_endpoint_def u_def)
  have fresh7: "7 \<notin> oid ` set (filter (\<lambda>d. \<not> (equality_match example_endpoint
                   (endpoint (subscription d))
                 \<and> \<not> equality_match (JStr (u ''zzz'')) (userType d))) example_subs)"
    unfolding gone by (simp add: example_doc_def)
  have others: "map oid (fst (POST (env_with_id 7) (request_with_userType ne_zzz)
                                example_subs)) = [3, 7]"
    unfolding POST_example_request(1) [OF t(3) ne_zzz_condition t(4) fresh7] gone
    by (simp add: userType_request_record example_doc_def env_with_id_def)
  from first second(2) ids types ends others show ?thesis by simp
qed

text \<open>
  Claim C3 says that a body without \<open>userType\<close> is answered 400 with
  \<open>Datos incompletos\<close>. For the body whose endpoint is the number 12345 and which has
  no \<open>userType\<close>, the first log line calls \<open>substring\<close> on the number before any
  check is made, the TypeError is caught, and the answer is 500; the collection is
  left as it was.
\<close>

theorem POST_numeric_endpoint_gives_500:
  "POST (env_failing []) numeric_endpoint_request example_subs
     = (example_subs, internal_error (env_failing []) TypeError)
   \<and> status (snd (POST (env_failing []) numeric_endpoint_request example_subs)) = 500"
  by (simp add: POST_def POST_try_def POST_with_body_def env_failing_def
      numeric_endpoint_request_def example_keys_def Let_def status_internal_error)

lemma DELETE_400:
  assumes "Connect \<notin> set (failing e)" and "body req = Some b" and "b \<noteq> JNull"
    and "opt_prop (get_prop b ''subscription'') ''endpoint'' \<in> {None, Some JNull, Some (JStr [])}"
  shows "DELETE e req subs = (subs, json_response 400 (message_only msg_endpoint_requerido))"
  unfolding DELETE_def DELETE_try_parsed [OF assms(1-3)] DELETE_with_body_def
  using assms(4) by (auto simp: Let_def)

lemma DELETE_with_body_string:
  assumes "opt_prop (get_prop b ''subscription'') ''endpoint'' = Some (JStr s)" and "s \<noteq> []"
  shows "DELETE_with_body e b subs =
    (if Find \<in> set (failing e) then (subs, Inl (DbError Find))
     else if \<exists>d \<in> set subs. matches_endpoint (JStr s) d \<and> log_line_throws d
       then (subs, Inl TypeError)
     else if UpdateMany \<in> set (failing e) then (subs, Inl (DbError UpdateMany))
     else
       (map (\<lambda>d. if matches_endpoint (JStr s) d then unsubscribe e d else d) subs,
        let n = length (filter (\<lambda>d. matches_endpoint (JStr s) d \<and> unsubscribe e d \<noteq> d) subs)
        in if n = 0 then Inr (json_response 404 (message_only msg_no_encontrada))
           else Inr (json_response 200
                  (JObj [(''message'', JStr msg_desactivada),
                         (''deactivated'', JNum (of_nat n))]))))"
  using assms by (auto simp: DELETE_with_body_def Let_def updateMany_def)

lemma DELETE_updates:
  assumes "Connect \<notin> set (failing e)" and "body req = Some b" and "b \<noteq> JNull"
    and "opt_prop (get_prop b ''subscription'') ''endpoint'' = Some (JStr s)" and "s \<noteq> []"
    and "Find \<notin> set (failing e)" and "UpdateMany \<notin> set (failing e)"
    and "\<not> (\<exists>d \<in> set subs. matches_endpoint (JStr s) d \<and> log_line_throws d)"
  shows "DELETE e req subs =
    (map (\<lambda>d. if matches_endpoint (JStr s) d then unsubscribe e d else d) subs,
     let n = length (filter (\<lambda>d. matches_endpoint (JStr s) d \<and> unsubscribe e d \<noteq> d) subs)
     in if n = 0 then json_response 404 (message_only msg_no_encontrada)
        else json_response 200
               (JObj [(''message'', JStr msg_desactivada), (''deactivated'', JNum (of_nat n))]))"
  unfolding DELETE_def DELETE_try_parsed [OF assms(1-3)] DELETE_with_body_string [OF assms(4,5)]
  using assms(6-8) by (auto simp: Let_def)

lemma example_unsubscribe_changes:
  "unsubscribe (env_failing []) (example_doc i ep ut) \<noteq> example_doc i ep ut"
  by (simp add: unsubscribe_def example_doc_def)

lemma example_subs_matching:
  "matches_endpoint (JStr (u ''https://push.example/abc'')) (example_doc i ep ut)
     \<longleftrightarrow> equality_match (JStr (u ''https://push.example/abc'')) ep"
  "log_line_throws (example_doc i ep ut) \<longleftrightarrow> coercion_throws ut"
  by (simp_all add: matches_endpoint_def log_line_throws_def example_doc_def)

lemma unsubscribe_request_endpoint:
  "body unsubscribe_request
     = Some (JObj [(''subscription'', JObj [(''endpoint'', example_endpoint)])])"
  "opt_prop (get_prop (JObj [(''subscription'', JObj [(''endpoint'', example_endpoint)])])
              ''subscription'') ''endpoint'' = Some (JStr (u ''https://push.example/abc''))"
  "u ''https://push.example/abc'' \<noteq> []"
  "u ''https://push.example/xyz'' \<noteq> u ''https://push.example/abc''"
  by (simp_all add: unsubscribe_request_def example_endpoint_def u_def)

lemma example_DELETE:
  "DELETE (env_failing []) unsubscribe_request example_subs =
     ([unsubscribe (env_failing []) (example_doc 1 example_endpoint (JStr (u ''user''))),
       unsubscribe (env_failing []) (example_doc 2 example_endpoint (JStr (u ''admin''))),
       example_doc 3 (JStr (u ''https://push.example/xyz'')) (JStr (u ''user''))],
      json_response 200 (JObj [(''message'', JStr msg_desactivada), (''deactivated'', JNum 2)]))"
proof -
  have c: "Connect \<notin> set (failing (env_failing []))"
    and f: "Find \<notin> set (failing (env_failing []))"
    and m: "UpdateMany \<notin> set (failing (env_failing []))"
    by (simp_all add: env_failing_def)
  have nn: "JObj [(''subscription'', JObj [(''endpoint'', example_endpoint)])] \<noteq> JNull"
    by simp
  have log: "\<not> (\<exists>d \<in> set example_subs.
                matches_endpoint (JStr (u ''https://push.example/abc'')) d \<and> log_line_throws d)"
    by (simp add: example_subs_def example_subs_matching)
  show ?thesis
    unfolding DELETE_updates [OF c unsubscribe_request_endpoint(1) nn
        unsubscribe_request_endpoint(2,3) f m log]
    by (simp add: example_subs_def example_subs_matching example_endpoint_def
        unsubscribe_request_endpoint(4) example_unsubscribe_changes)
qed

text \<open>
  Claim C4, as stated, fails on the word "deletes": after a successful \<open>DELETE\<close> for
  the example endpoint the collection holds the same three records with the same
  subscriptions; the two for that endpoint are marked inactive.
\<close>

theorem DELETE_keeps_the_records:
  "status (snd (DELETE (env_failing []) unsubscribe_request example_subs)) = 200
   \<and> map oid (fst (DELETE (env_failing []) unsubscribe_request example_subs)) = map oid example_subs
   \<and> map subscription (fst (DELETE (env_failing []) unsubscribe_request example_subs))
       = map subscription example_subs
   \<and> map isActive (fst (DELETE (env_failing []) unsubscribe_request example_subs))
       = [False, False, True]"
  unfolding example_DELETE
  by (simp add: json_response_def unsubscribe_def example_subs_def example_doc_def)

lemma log_line_throws_iff:
  "log_line_throws d \<longleftrightarrow>
     coercion_throws (userType d) \<or> (\<exists>c \<in> set (ticketCodes d). coercion_throws c)"
  by (simp add: log_line_throws_def)

text \<open>
  Claim C4, amended. With the database connected and a parsed body other than
  \<open>null\<close>: when \<open>subscription.endpoint\<close> is absent, null or the empty string,
  \<open>DELETE\<close> answers 400 and leaves the collection as it was. When it is a non-empty
  string, the database calls succeed and the log line of every record found can be
  written (neither its user type nor one of its ticket codes raises on coercion),
  \<open>DELETE\<close> removes no record: every record that the store's filter matches on the
  endpoint (an endpoint equal to the given one, or an array containing it), whatever its
  user type, is marked inactive with stage \<open>unsubscribed\<close>, every other record is
  untouched, and the answer is 404 when the update changed no record and otherwise 200
  with the number of records changed.
\<close>

theorem DELETE_deactivates:
  assumes "Connect \<notin> set (failing e)" and "body req = Some b" and "b \<noteq> JNull"
    and "opt_prop (get_prop b ''subscription'') ''endpoint'' = ep"
  shows "(ep \<in> {None, Some JNull, Some (JStr [])} \<longrightarrow>
            DELETE e req subs = (subs, json_response 400 (message_only msg_endpoint_requerido)))
       \<and> (\<forall>s. ep = Some (JStr s) \<and> s \<noteq> []
               \<and> Find \<notin> set (failing e) \<and> UpdateMany \<notin> set (failing e)
               \<and> (\<forall>d \<in> set subs. equality_match (JStr s) (endpoint (subscription d))
                      \<longrightarrow> \<not> log_line_throws d) \<longrightarrow>
            (\<exists>n. n = length (filter (\<lambda>d. equality_match (JStr s) (endpoint (subscription d))
                                          \<and> unsubscribe e d \<noteq> d) subs)
               \<and> fst (DELETE e req subs)
                   = map (\<lambda>d. if equality_match (JStr s) (endpoint (subscription d))
                              then unsubscribe e d else d) subs
               \<and> map oid (fst (DELETE e req subs)) = map oid subs
               \<and> map subscription (fst (DELETE e req subs)) = map subscription subs
               \<and> map userType (fst (DELETE e req subs)) = map userType subs
               \<and> (\<forall>d \<in> set (fst (DELETE e req subs)).
                     equality_match (JStr s) (endpoint (subscription d)) \<longrightarrow>
                     \<not> isActive d \<and> stage (lifecycle d) = u ''unsubscribed'')
               \<and> snd (DELETE e req subs)
                   = (if n = 0 then json_response 404 (message_only msg_no_encontrada)
                      else json_response 200
                             (JObj [(''message'', JStr msg_desactivada),
                                    (''deactivated'', JNum (of_nat n))]))))
       \<and> (\<forall>q v. equality_match q v \<longleftrightarrow> v = q \<or> (\<exists>xs. v = JArr xs \<and> q \<in> set xs))
       \<and> (\<forall>d. log_line_throws d \<longleftrightarrow>
             coercion_throws (userType d) \<or> (\<exists>c \<in> set (ticketCodes d). coercion_throws c))"
proof (intro conjI allI impI)
  assume "ep \<in> {None, Some JNull, Some (JStr [])}"
  with assms show "DELETE e req subs
      = (subs, json_response 400 (message_only msg_endpoint_requerido))"
    by (intro DELETE_400 [of e req b]) simp_all
next
  fix s
  assume h: "ep = Some (JStr s) \<and> s \<noteq> []
               \<and> Find \<notin> set (failing e) \<and> UpdateMany \<notin> set (failing e)
               \<and> (\<forall>d \<in> set subs. equality_match (JStr s) (endpoint (subscription d))
                      \<longrightarrow> \<not> log_line_throws d)"
  let ?m = "\<lambda>d. equality_match (JStr s) (endpoint (subscription d))"
  let ?upd = "\<lambda>d. if ?m d then unsubscribe e d else d"
  let ?n = "length (filter (\<lambda>d. ?m d \<and> unsubscribe e d \<noteq> d) subs)"
  from h assms(4) have ep: "opt_prop (get_prop b ''subscription'') ''endpoint'' = Some (JStr s)"
    by simp
  from h have log: "\<not> (\<exists>d \<in> set subs. matches_endpoint (JStr s) d \<and> log_line_throws d)"
    by (auto simp: matches_endpoint_def)
  have run: "DELETE e req subs =
      (map ?upd subs,
       if ?n = 0 then json_response 404 (message_only msg_no_encontrada)
       else json_response 200
              (JObj [(''message'', JStr msg_desactivada), (''deactivated'', JNum (of_nat ?n))]))"
    using DELETE_updates [OF assms(1-3) ep _ _ _ log] h
    by (simp add: Let_def matches_endpoint_def)
  have ids: "map oid (map ?upd subs) = map oid subs"
    by (simp add: unsubscribe_def)
  have subscriptions: "map subscription (map ?upd subs) = map subscription subs"
    by (simp add: unsubscribe_def)
  have types: "map userType (map ?upd subs) = map userType subs"
    by (simp add: unsubscribe_def)
  have inactive: "\<forall>d \<in> set (map ?upd subs). ?m d \<longrightarrow>
                     \<not> isActive d \<and> stage (lifecycle d) = u ''unsubscribed''"
    by (auto simp: unsubscribe_def)
  show "\<exists>n. n = ?n
       \<and> fst (DELETE e req subs) = map ?upd subs
       \<and> map oid (fst (DELETE e req subs)) = map oid subs
       \<and> map subscription (fst (DELETE e req subs)) = map subscription subs
       \<and> map userType (fst (DELETE e req subs)) = map userType subs
       \<and> (\<forall>d \<in> set (fst (DELETE e req subs)). ?m d \<longrightarrow>
             \<not> isActive d \<and> stage (lifecycle d) = u ''unsubscribed'')
       \<and> snd (DELETE e req subs)
           = (if n = 0 then json_response 404 (message_only msg_no_encontrada)
              else json_response 200
                     (JObj [(''message'', JStr msg_desactivada),
                            (''deactivated'', JNum (of_nat n))]))"
    unfolding run fst_conv snd_conv using ids subscriptions types inactive by blast
next
  fix q v
  show "equality_match q v \<longleftrightarrow> v = q \<or> (\<exists>xs. v = JArr xs \<and> q \<in> set xs)"
    by (rule equality_match_iff)
next
  fix d
  show "log_line_throws d \<longleftrightarrow>
          coercion_throws (userType d) \<or> (\<exists>c \<in> set (ticketCodes d). coercion_throws c)"
    by (rule log_line_throws_iff)
qed

theorem DELETE_deactivates_witness:
  "map isActive (fst (DELETE (env_failing []) unsubscribe_request example_subs))
     = [False, False, True]
   \<and> map oid (fst (DELETE (env_failing []) unsubscribe_request example_subs)) = [1, 2, 3]
   \<and> status (snd (DELETE (env_failing []) unsubscribe_request example_subs)) = 200"
proof -
  let ?b = "JObj [(''subscription'', JObj [(''endpoint'', example_endpoint)])]"
  let ?s = "u ''https://push.example/abc''"
  let ?run = "DELETE (env_failing []) unsubscribe_request example_subs"
  have c: "Connect \<notin> set (failing (env_failing []))"
    and f: "Find \<notin> set (failing (env_failing []))"
    and m: "UpdateMany \<notin> set (failing (env_failing []))"
    by (simp_all add: env_failing_def)
  have nn: "?b \<noteq> JNull" by simp
  have log: "\<forall>d \<in> set example_subs. equality_match (JStr ?s) (endpoint (subscription d))
               \<longrightarrow> \<not> log_line_throws d"
    by (simp add: example_subs_def example_subs_matching)
  from DELETE_deactivates [OF c unsubscribe_request_endpoint(1) nn
         unsubscribe_request_endpoint(2), of example_subs]
    unsubscribe_request_endpoint(3) f m log
  obtain n where n: "n = length (filter (\<lambda>d. equality_match (JStr ?s) (endpoint (subscription d))
                                    \<and> unsubscribe (env_failing []) d \<noteq> d) example_subs)"
    and store: "fst ?run = map (\<lambda>d. if equality_match (JStr ?s) (endpoint (subscription d))
                                      then unsubscribe (env_failing []) d else d) example_subs"
    and ids: "map oid (fst ?run) = map oid example_subs"
    and resp: "snd ?run = (if n = 0 then json_response 404 (message_only msg_no_encontrada)
                      else json_response 200
                             (JObj [(''message'', JStr msg_desactivada),
                                    (''deactivated'', JNum (of_nat n))]))"
    by blast
  have ends: "endpoint (subscription (example_doc i ep ut)) = ep" for i ep ut
    by (simp add: example_doc_def)
  have "n = 2"
    unfolding n
    by (simp add: example_subs_def ends example_endpoint_def unsubscribe_request_endpoint(4)
        example_unsubscribe_changes)
  with resp have st: "status (snd ?run) = 200"
    by (simp add: json_response_def)
  have act: "map isActive (fst ?run) = [False, False, True]"
    unfolding store
    by (simp add: example_subs_def ends example_endpoint_def unsubscribe_request_endpoint(4))
      (simp add: unsubscribe_def example_doc_def)
  from ids have "map oid (fst ?run) = [1, 2, 3]"
    by (simp add: example_subs_def example_doc_def)
  with act st show ?thesis by simp
qed





















section \<open>Properties of the vehicle-registration component\<close>

lemma capturedImages_handleSubmit_end:
  "capturedImages (handleSubmit_end t r res st) = None
   \<or> capturedImages (handleSubmit_end t r res st) = capturedImages st"
  by (auto simp: handleSubmit_end_def Let_def split: fetch_result.splits option.splits json.splits)

lemma complete_images_step:
  assumes "complete_images st"
  shows "complete_images (step t st ev)"
proof (cases ev)
  case (SubmitEnd r res)
  with assms capturedImages_handleSubmit_end [of t r res st] show ?thesis
    by (auto simp: complete_images_def)
qed (use assms in \<open>auto simp: complete_images_def handleInputChange_def handleTicketChange_def
      handleVehicleDetected_def handleSubmit_begin_def openCamera_def\<close>)

lemma complete_images_run:
  "complete_images st \<Longrightarrow> complete_images (run t st evs)"
  unfolding run_def by (induction evs arbitrary: st) (simp_all add: complete_images_step)

lemma complete_images_initial: "complete_images (initial m)"
  by (simp add: complete_images_def initial_def)

lemma imagenes_absent:
  "map_of (submitData st) ''imagenes'' = None \<longleftrightarrow> capturedImages st = None"
  by (cases "capturedImages st") (simp_all add: submitData_def defined_property_def)

lemma imagenes_present:
  "capturedImages st = Some ci \<Longrightarrow>
     map_of (submitData st) ''imagenes'' = Some (imagenes (isMobile st) ci)"
  by (simp add: submitData_def defined_property_def)

lemma imagenes_complete:
  "imagenes mobile \<lparr>placaUrl = Some p, vehiculoUrl = Some v,
                    confianzaPlaca = Some cp, confianzaVehiculo = Some cv\<rparr>
   = JObj [(''plateImageUrl'', JStr p), (''vehicleImageUrl'', JStr v),
           (''capturaMetodo'', JStr (if mobile then u ''camara_movil'' else u ''camara_desktop'')),
           (''confianzaPlaca'', JNum cp), (''confianzaVehiculo'', JNum cv)]"
  by (simp add: imagenes_def defined_property_def)

text \<open>
  Claim C6. In every state the component can reach, the body sent to
  \<open>/api/admin/cars\<close> has no \<open>imagenes\<close> property exactly when no images were
  captured; when images were captured it has an \<open>imagenes\<close> object with the plate
  image URL, the vehicle image URL, \<open>capturaMetodo\<close> (\<open>camara_movil\<close> on mobile,
  \<open>camara_desktop\<close> on desktop) and the two confidence values.
\<close>

theorem imagenes_sent_iff_captured:
  assumes "st = run to_text (initial mobile) evs"
  shows "(map_of (snd (handleSubmit_begin st)) ''imagenes'' = None \<longleftrightarrow> capturedImages st = None)
       \<and> (capturedImages st \<noteq> None \<longrightarrow>
            (\<exists>p v cp cv.
               capturedImages st = Some \<lparr>placaUrl = Some p, vehiculoUrl = Some v,
                                          confianzaPlaca = Some cp, confianzaVehiculo = Some cv\<rparr>
             \<and> map_of (snd (handleSubmit_begin st)) ''imagenes'' =
                 Some (JObj [(''plateImageUrl'', JStr p), (''vehicleImageUrl'', JStr v),
                             (''capturaMetodo'',
                                JStr (if isMobile st then u ''camara_movil''
                                      else u ''camara_desktop'')),
                             (''confianzaPlaca'', JNum cp), (''confianzaVehiculo'', JNum cv)])))"
proof (intro conjI impI)
  show "map_of (snd (handleSubmit_begin st)) ''imagenes'' = None \<longleftrightarrow> capturedImages st = None"
    by (simp add: handleSubmit_begin_def imagenes_absent)
next
  assume "capturedImages st \<noteq> None"
  then obtain ci where ci: "capturedImages st = Some ci" by blast
  have "complete_images st"
    unfolding assms by (intro complete_images_run complete_images_initial)
  with ci obtain p v cp cv where "placaUrl ci = Some p" "vehiculoUrl ci = Some v"
      "confianzaPlaca ci = Some cp" "confianzaVehiculo ci = Some cv"
    by (auto simp: complete_images_def)
  then have shape: "ci = \<lparr>placaUrl = Some p, vehiculoUrl = Some v,
                           confianzaPlaca = Some cp, confianzaVehiculo = Some cv\<rparr>"
    by simp
  have "map_of (snd (handleSubmit_begin st)) ''imagenes'' = Some (imagenes (isMobile st) ci)"
    using ci by (simp add: handleSubmit_begin_def imagenes_present)
  with ci shape show "\<exists>p v cp cv.
               capturedImages st = Some \<lparr>placaUrl = Some p, vehiculoUrl = Some v,
                                          confianzaPlaca = Some cp, confianzaVehiculo = Some cv\<rparr>
             \<and> map_of (snd (handleSubmit_begin st)) ''imagenes'' =
                 Some (JObj [(''plateImageUrl'', JStr p), (''vehicleImageUrl'', JStr v),
                             (''capturaMetodo'',
                                JStr (if isMobile st then u ''camara_movil''
                                      else u ''camara_desktop'')),
                             (''confianzaPlaca'', JNum cp), (''confianzaVehiculo'', JNum cv)])"
    using imagenes_complete [of "isMobile st" p v cp cv] by auto
qed

lemma captured_state_images:
  "capturedImages captured_state =
     Some \<lparr>placaUrl = Some (u ''https://img.example/p.jpg''),
           vehiculoUrl = Some (u ''https://img.example/v.jpg''),
           confianzaPlaca = Some (9 / 10), confianzaVehiculo = Some (4 / 5)\<rparr>"
  and captured_state_mobile: "isMobile captured_state"
  by (simp_all add: captured_state_def run_def openCamera_def handleVehicleDetected_def
      initial_def example_vehicle_def maxRetries_def)

theorem imagenes_sent_iff_captured_witness:
  "map_of (snd (handleSubmit_begin captured_state)) ''imagenes'' =
     Some (JObj [(''plateImageUrl'', JStr (u ''https://img.example/p.jpg'')),
                 (''vehicleImageUrl'', JStr (u ''https://img.example/v.jpg'')),
                 (''capturaMetodo'', JStr (u ''camara_movil'')),
                 (''confianzaPlaca'', JNum (9 / 10)), (''confianzaVehiculo'', JNum (4 / 5))])
   \<and> map_of (snd (handleSubmit_begin (run example_to_text (initial False) []))) ''imagenes'' = None"
proof -
  have ne: "capturedImages captured_state \<noteq> None"
    by (simp add: captured_state_images)
  from imagenes_sent_iff_captured [OF captured_state_def] ne
  obtain p v cp cv where
    "capturedImages captured_state = Some \<lparr>placaUrl = Some p, vehiculoUrl = Some v,
                                          confianzaPlaca = Some cp, confianzaVehiculo = Some cv\<rparr>"
    and sent: "map_of (snd (handleSubmit_begin captured_state)) ''imagenes'' =
                 Some (JObj [(''plateImageUrl'', JStr p), (''vehicleImageUrl'', JStr v),
                             (''capturaMetodo'',
                                JStr (if isMobile captured_state then u ''camara_movil''
                                      else u ''camara_desktop'')),
                             (''confianzaPlaca'', JNum cp), (''confianzaVehiculo'', JNum cv)])"
    by blast
  then have "p = u ''https://img.example/p.jpg''" "v = u ''https://img.example/v.jpg''"
      "cp = 9 / 10" "cv = 4 / 5"
    by (simp_all add: captured_state_images)
  with sent have first: "map_of (snd (handleSubmit_begin captured_state)) ''imagenes'' =
     Some (JObj [(''plateImageUrl'', JStr (u ''https://img.example/p.jpg'')),
                 (''vehicleImageUrl'', JStr (u ''https://img.example/v.jpg'')),
                 (''capturaMetodo'', JStr (u ''camara_movil'')),
                 (''confianzaPlaca'', JNum (9 / 10)), (''confianzaVehiculo'', JNum (4 / 5))])"
    by (simp add: captured_state_mobile)
  have "capturedImages (run example_to_text (initial False) []) = None"
    by (simp add: run_def initial_def)
  with imagenes_sent_iff_captured [OF refl, of example_to_text False "[]"]
  have "map_of (snd (handleSubmit_begin (run example_to_text (initial False) []))) ''imagenes''
          = None"
    by blast
  with first show ?thesis by simp
qed

text \<open>
  Claim C7, as stated, fails for a response that is ok but whose body is not JSON:
  \<open>response.json()\<close> rejects before \<open>response.ok\<close> is looked at, the \<open>catch\<close>
  block runs, and the filled form stays as it was.
\<close>

theorem ok_response_without_json_keeps_form:
  "formData (handleSubmit_end example_to_text False (HttpResponse True None) filled_state)
     = filled_form
   \<and> filled_form \<noteq> emptyFormData"
  by (simp add: handleSubmit_end_def filled_state_def filled_form_def emptyFormData_def u_def)

text \<open>
  Claim C7, amended. After a submit whose response is ok and whose body parses to a
  JSON value other than null with a \<open>message\<close> that can be written as text (its
  coercion in the template literal does not raise), all eight form fields are the empty
  string and the captured images are null. After a submit whose response is not ok, and
  after one whose body does not parse, parses to null, or whose request failed, the form
  fields and the captured images are unchanged; so they are when the coercion of the
  \<open>message\<close> raises, whether the response is ok or not.
\<close>

theorem submit_resets_form_on_ok:
  "(data \<noteq> JNull \<and> \<not> template_throws (get_prop data ''message'') \<longrightarrow>
      formData (handleSubmit_end t r (HttpResponse True (Some data)) st)
        = \<lparr>placa = [], marca = [], modelo = [], color = [], nombreDueno = [],
           telefono = [], ticketAsociado = [], nota = []\<rparr>
      \<and> capturedImages (handleSubmit_end t r (HttpResponse True (Some data)) st) = None)
   \<and> formData (handleSubmit_end t r (HttpResponse False b) st) = formData st
   \<and> capturedImages (handleSubmit_end t r (HttpResponse False b) st) = capturedImages st
   \<and> formData (handleSubmit_end t r (HttpResponse ok None) st) = formData st
   \<and> capturedImages (handleSubmit_end t r (HttpResponse ok None) st) = capturedImages st
   \<and> formData (handleSubmit_end t r (HttpResponse ok (Some JNull)) st) = formData st
   \<and> capturedImages (handleSubmit_end t r (HttpResponse ok (Some JNull)) st) = capturedImages st
   \<and> formData (handleSubmit_end t r NetworkError st) = formData st
   \<and> capturedImages (handleSubmit_end t r NetworkError st) = capturedImages st
   \<and> (template_throws (get_prop data ''message'') \<longrightarrow>
        formData (handleSubmit_end t r (HttpResponse ok (Some data)) st) = formData st
        \<and> capturedImages (handleSubmit_end t r (HttpResponse ok (Some data)) st)
            = capturedImages st)"
proof -
  have ok: "data \<noteq> JNull \<and> \<not> template_throws (get_prop data ''message'') \<longrightarrow>
      formData (handleSubmit_end t r (HttpResponse True (Some data)) st)
        = \<lparr>placa = [], marca = [], modelo = [], color = [], nombreDueno = [],
           telefono = [], ticketAsociado = [], nota = []\<rparr>
      \<and> capturedImages (handleSubmit_end t r (HttpResponse True (Some data)) st) = None"
    by (cases data) (simp_all add: handleSubmit_end_def emptyFormData_def Let_def)
  have not_ok: "formData (handleSubmit_end t r (HttpResponse False b) st) = formData st
      \<and> capturedImages (handleSubmit_end t r (HttpResponse False b) st) = capturedImages st"
    by (simp add: handleSubmit_end_def split: option.splits json.splits)
  have rest: "formData (handleSubmit_end t r (HttpResponse ok None) st) = formData st"
    "capturedImages (handleSubmit_end t r (HttpResponse ok None) st) = capturedImages st"
    "formData (handleSubmit_end t r (HttpResponse ok (Some JNull)) st) = formData st"
    "capturedImages (handleSubmit_end t r (HttpResponse ok (Some JNull)) st) = capturedImages st"
    "formData (handleSubmit_end t r NetworkError st) = formData st"
    "capturedImages (handleSubmit_end t r NetworkError st) = capturedImages st"
    by (simp_all add: handleSubmit_end_def)
  have raises: "template_throws (get_prop data ''message'') \<longrightarrow>
        formData (handleSubmit_end t r (HttpResponse ok (Some data)) st) = formData st
        \<and> capturedImages (handleSubmit_end t r (HttpResponse ok (Some data)) st)
            = capturedImages st"
    by (cases data) (simp_all add: handleSubmit_end_def)
  from ok not_ok rest raises show ?thesis by simp
qed

theorem submit_resets_form_on_ok_witness:
  "formData (handleSubmit_end example_to_text False
       (HttpResponse True (Some (JObj [(''message'', JStr (u ''ok''))]))) captured_state)
     = emptyFormData
   \<and> capturedImages (handleSubmit_end example_to_text False
       (HttpResponse True (Some (JObj [(''message'', JStr (u ''ok''))]))) captured_state) = None
   \<and> capturedImages captured_state \<noteq> None"
proof -
  have "JObj [(''message'', JStr (u ''ok''))] \<noteq> JNull
      \<and> \<not> template_throws (get_prop (JObj [(''message'', JStr (u ''ok''))]) ''message'')"
    by simp
  with submit_resets_form_on_ok
         [of "JObj [(''message'', JStr (u ''ok''))]" example_to_text False captured_state]
  have "formData (handleSubmit_end example_to_text False
       (HttpResponse True (Some (JObj [(''message'', JStr (u ''ok''))]))) captured_state)
     = emptyFormData
   \<and> capturedImages (handleSubmit_end example_to_text False
       (HttpResponse True (Some (JObj [(''message'', JStr (u ''ok''))]))) captured_state) = None"
    by (simp add: emptyFormData_def)
  then show ?thesis by (simp add: captured_state_images)
qed

lemma trim_nonblank: "trim s \<noteq> [] \<longleftrightarrow> (\<exists>c \<in> set s. \<not> is_white_space c)"
proof
  assume "trim s \<noteq> []"
  then show "\<exists>c \<in> set s. \<not> is_white_space c"
    by (auto simp: trim_def dest: set_dropWhileD)
next
  let ?rest = "dropWhile is_white_space s"
  assume "\<exists>c \<in> set s. \<not> is_white_space c"
  then have ne: "?rest \<noteq> []"
    by simp
  then have "\<not> is_white_space (hd ?rest)"
    by (rule hd_dropWhile)
  moreover from ne have "hd ?rest \<in> set (rev ?rest)"
    by simp
  ultimately have "dropWhile is_white_space (rev ?rest) \<noteq> []"
    by auto
  then show "trim s \<noteq> []"
    by (simp add: trim_def)
qed

text \<open>
  Claim C9, as stated, fails while a submission is under way: on mobile, with plate
  and ticket filled in, the submit button is disabled.
\<close>

theorem valid_form_disabled_while_submitting:
  "isMobile submitting_state
   \<and> trim (placa (formData submitting_state)) \<noteq> []
   \<and> trim (ticketAsociado (formData submitting_state)) \<noteq> []
   \<and> submit_disabled submitting_state"
  by (simp add: submitting_state_def submit_disabled_def emptyFormData_def trim_nonblank
      is_white_space_def u_def)

text \<open>
  Claim C9, amended. On mobile the submit button is enabled exactly when no submission
  is under way and \<open>placa\<close> and \<open>ticketAsociado\<close> are non-blank after trimming; on
  desktop exactly when no submission is under way and each of the eight fields, the
  note included, is non-blank after trimming, so on desktop the button is never enabled
  with a blank note. A string is non-blank after trimming exactly when it has a
  character that is not white space.
\<close>

theorem submit_enabled_iff:
  "(isMobile st \<longrightarrow>
      (\<not> submit_disabled st \<longleftrightarrow>
         \<not> isSubmitting st
         \<and> trim (placa (formData st)) \<noteq> [] \<and> trim (ticketAsociado (formData st)) \<noteq> []))
   \<and> (\<not> isMobile st \<longrightarrow>
      (\<not> submit_disabled st \<longleftrightarrow>
         \<not> isSubmitting st
         \<and> trim (placa (formData st)) \<noteq> [] \<and> trim (marca (formData st)) \<noteq> []
         \<and> trim (modelo (formData st)) \<noteq> [] \<and> trim (color (formData st)) \<noteq> []
         \<and> trim (nombreDueno (formData st)) \<noteq> [] \<and> trim (telefono (formData st)) \<noteq> []
         \<and> trim (ticketAsociado (formData st)) \<noteq> [] \<and> trim (nota (formData st)) \<noteq> []))
   \<and> (\<not> isMobile st \<and> \<not> submit_disabled st \<longrightarrow> trim (nota (formData st)) \<noteq> [])
   \<and> (\<forall>s. trim s \<noteq> [] \<longleftrightarrow> (\<exists>c \<in> set s. \<not> is_white_space c))"
  by (auto simp: submit_disabled_def isFormValid_def form_values_def trim_nonblank)

theorem submit_enabled_iff_witness:
  "\<not> submit_disabled filled_state \<and> \<not> isMobile filled_state
   \<and> trim (nota (formData filled_state)) \<noteq> []
   \<and> submit_disabled (filled_state\<lparr>formData := filled_form\<lparr>nota := u ''  ''\<rparr>\<rparr>)"
proof -
  have d: "\<not> isMobile filled_state" "\<not> isSubmitting filled_state"
    by (simp_all add: filled_state_def)
  have filled: "trim (placa (formData filled_state)) \<noteq> []"
    "trim (marca (formData filled_state)) \<noteq> []" "trim (modelo (formData filled_state)) \<noteq> []"
    "trim (color (formData filled_state)) \<noteq> []" "trim (nombreDueno (formData filled_state)) \<noteq> []"
    "trim (telefono (formData filled_state)) \<noteq> []"
    "trim (ticketAsociado (formData filled_state)) \<noteq> []"
    "trim (nota (formData filled_state)) \<noteq> []"
    by (simp_all add: filled_state_def filled_form_def trim_nonblank is_white_space_def u_def)
  with d submit_enabled_iff [of filled_state] have enabled: "\<not> submit_disabled filled_state"
    by blast
  let ?blank = "filled_state\<lparr>formData := filled_form\<lparr>nota := u ''  ''\<rparr>\<rparr>"
  have "\<not> isMobile ?blank" and "trim (nota (formData ?blank)) = []"
    by (simp_all add: filled_state_def trim_def is_white_space_def u_def)
  with submit_enabled_iff [of ?blank] have "submit_disabled ?blank"
    by blast
  with enabled d filled show ?thesis by simp
qed

lemma cameraRetryCount_handleSubmit_end:
  "cameraRetryCount (handleSubmit_end t r res st) = cameraRetryCount st"
  by (simp add: handleSubmit_end_def Let_def split: fetch_result.splits option.splits json.splits)

lemma showVehicleCapture_handleSubmit_end:
  "showVehicleCapture (handleSubmit_end t r res st) = showVehicleCapture st"
  by (simp add: handleSubmit_end_def Let_def split: fetch_result.splits option.splits json.splits)

lemma cameraRetryCount_step:
  "cameraRetryCount (step t st ev) =
     (if ev = OpenCamera \<and> cameraRetryCount st < maxRetries
      then cameraRetryCount st + 1 else cameraRetryCount st)"
  by (cases ev)
    (simp_all add: handleInputChange_def handleTicketChange_def handleVehicleDetected_def
      handleSubmit_begin_def cameraRetryCount_handleSubmit_end openCamera_def)

lemma cameraRetryCount_run:
  "cameraRetryCount st \<le> maxRetries \<Longrightarrow>
     cameraRetryCount (run t st evs)
       = min maxRetries (cameraRetryCount st + count_list evs OpenCamera)"
  unfolding run_def
proof (induction evs arbitrary: st)
  case Nil
  then show ?case by simp
next
  case (Cons ev evs)
  have "cameraRetryCount (step t st ev) \<le> maxRetries"
    using Cons.prems by (simp add: cameraRetryCount_step)
  from Cons.IH [OF this] Cons.prems show ?case
    by (auto simp: cameraRetryCount_step)
qed

lemma exhausted_step:
  assumes "maxRetries \<le> cameraRetryCount st"
  shows "maxRetries \<le> cameraRetryCount (step t st ev)"
    and "\<not> showVehicleCapture st \<Longrightarrow> \<not> showVehicleCapture (step t st ev)"
  using assms
  by (cases ev;
      simp add: handleInputChange_def handleTicketChange_def handleVehicleDetected_def
        handleSubmit_begin_def cameraRetryCount_handleSubmit_end
        showVehicleCapture_handleSubmit_end openCamera_def)+

lemma exhausted_run:
  assumes "maxRetries \<le> cameraRetryCount st" and "\<not> showVehicleCapture st"
  shows "\<not> showVehicleCapture (run t st evs)"
  using assms unfolding run_def
  by (induction evs arbitrary: st) (simp_all add: exhausted_step)

lemma run_append: "run t st (evs @ evs') = run t (run t st evs) evs'"
  by (simp add: run_def)

text \<open>
  Claim C10. Whatever happens to the component, the retry counter equals the number of
  \<open>openCamera\<close> invocations so far, capped at 10: nothing resets it. Once
  \<open>openCamera\<close> has been invoked 10 times, every later invocation only sets the
  error message, and once the capture view has been closed it is never shown again.
\<close>

theorem camera_attempts_bounded:
  "cameraRetryCount (run t (initial m) evs) = min 10 (count_list evs OpenCamera)
   \<and> (10 \<le> count_list evs OpenCamera \<longrightarrow>
        openCamera (run t (initial m) (evs @ evs'))
          = (run t (initial m) (evs @ evs'))\<lparr>message := msg_max_intentos\<rparr>
        \<and> (\<not> showVehicleCapture (run t (initial m) evs)
             \<longrightarrow> \<not> showVehicleCapture (run t (initial m) (evs @ evs'))))"
proof (intro conjI impI)
  have start: "cameraRetryCount (initial m) \<le> maxRetries"
    by (simp add: initial_def)
  have count: "cameraRetryCount (run t (initial m) xs) = min 10 (count_list xs OpenCamera)" for xs
    using cameraRetryCount_run [OF start, of t xs] by (simp add: initial_def maxRetries_def)
  show "cameraRetryCount (run t (initial m) evs) = min 10 (count_list evs OpenCamera)"
    by (rule count)
  assume ten: "10 \<le> count_list evs OpenCamera"
  then have "cameraRetryCount (run t (initial m) (evs @ evs')) = 10"
    by (simp add: count)
  then show "openCamera (run t (initial m) (evs @ evs'))
          = (run t (initial m) (evs @ evs'))\<lparr>message := msg_max_intentos\<rparr>"
    by (simp add: openCamera_def maxRetries_def)
  assume closed: "\<not> showVehicleCapture (run t (initial m) evs)"
  from ten have "maxRetries \<le> cameraRetryCount (run t (initial m) evs)"
    by (simp add: count maxRetries_def)
  from exhausted_run [OF this closed, of t evs']
  show "\<not> showVehicleCapture (run t (initial m) (evs @ evs'))"
    by (simp add: run_append)
qed

theorem camera_attempts_bounded_witness:
  "cameraRetryCount (run example_to_text (initial True) ten_attempts) = 10
   \<and> \<not> showVehicleCapture (run example_to_text (initial True) (ten_attempts @ [OpenCamera]))
   \<and> message (run example_to_text (initial True) (ten_attempts @ [OpenCamera]))
       = msg_max_intentos"
proof -
  have n: "count_list ten_attempts OpenCamera = 10"
    by (simp add: ten_attempts_def numeral_Bit0 numeral_Bit1 replicate_add)
  have closed: "\<not> showVehicleCapture (run example_to_text (initial True) ten_attempts)"
    by (simp add: ten_attempts_def run_def initial_def openCamera_def maxRetries_def
        numeral_Bit0 numeral_Bit1 replicate_add)
  note bound = camera_attempts_bounded [of example_to_text True ten_attempts]
  from bound [of "[]"] n
  have count: "cameraRetryCount (run example_to_text (initial True) ten_attempts) = 10"
    by simp
  from bound [of "[OpenCamera]"] n closed
  have shut: "\<not> showVehicleCapture (run example_to_text (initial True) (ten_attempts @ [OpenCamera]))"
    by simp
  from bound [of "[]"] n
  have "openCamera (run example_to_text (initial True) ten_attempts)
          = (run example_to_text (initial True) ten_attempts)\<lparr>message := msg_max_intentos\<rparr>"
    by simp
  then have "message (run example_to_text (initial True) (ten_attempts @ [OpenCamera]))
       = msg_max_intentos"
    by (simp add: run_append) (simp add: run_def)
  with count shut show ?thesis by simp
qed

end
